theory Spec2Isabelle
  imports Complex_Main "HOL-Library.Sublist"
begin

text \<open>
  A model of the backend's request handlers for subscription payments (initiation, the
  provider's notification, approval and rejection by an administrator) and for feedback
  (submission with sentiment classification, the paginated listing). Each handler is a
  function from its inputs and the store to a reply and the new store; what a handler
  takes from libraries and the platform (the MD5 digest, number formatting, the clock,
  the classifier process, the store's sort) is a parameter.
\<close>

section \<open>JavaScript strings\<close>

text \<open>
  Strings are lists of characters. The case mappings are the ASCII ones: the digests the
  handlers upper-case are hexadecimal, and the keywords the feedback heuristic looks for
  are ASCII words.
\<close>

definition toUpperChar :: "char \<Rightarrow> char" where
  "toUpperChar c =
     (case map_of (zip ''abcdefghijklmnopqrstuvwxyz'' ''ABCDEFGHIJKLMNOPQRSTUVWXYZ'') c of
        Some u \<Rightarrow> u
      | None \<Rightarrow> c)"


definition toUpperCase :: "string \<Rightarrow> string" where
  "toUpperCase s = map toUpperChar s"





text \<open>The decimal rendering of a non-negative integer, as a template literal prints it.\<close>

definition digitChar :: "nat \<Rightarrow> char" where
  "digitChar d = ''0123456789'' ! d"

fun showNat :: "nat \<Rightarrow> string" where
  "showNat n = (if n < 10 then [digitChar n] else showNat (n div 10) @ [digitChar (n mod 10)])"

declare showNat.simps [simp del]

section \<open>Data model\<close>

text \<open>
  The schema's enumerations. \<open>status\<close>: \<^verbatim>\<open>'pending'\<close>, \<^verbatim>\<open>'paid'\<close>, \<^verbatim>\<open>'success'\<close>,
  \<^verbatim>\<open>'failed'\<close>, \<^verbatim>\<open>'canceled'\<close>, \<^verbatim>\<open>'chargedback'\<close>. \<open>plan\<close>: \<^verbatim>\<open>'basic'\<close>, \<^verbatim>\<open>'Basic'\<close>,
  \<^verbatim>\<open>'School Pro'\<close>, \<^verbatim>\<open>'O/L Pro'\<close>, \<^verbatim>\<open>'A/L Pro'\<close>, \<^verbatim>\<open>'school'\<close>, \<^verbatim>\<open>'ol_pro'\<close>, \<^verbatim>\<open>'al_pro'\<close>.
\<close>

datatype status = Pending | Paid | Success | Failed | Canceled | Chargedback

datatype plan = Plan_basic | Plan_Basic | School_Pro | OL_Pro | AL_Pro
  | Plan_school | Plan_ol_pro | Plan_al_pro


text \<open>
  Object ids are natural numbers, times are milliseconds since the epoch, an amount is the
  exact value of the JavaScript number. A document holds the fields its schema declares,
  its \<^verbatim>\<open>_id\<close> and its creation time; the store's \<^verbatim>\<open>updatedAt\<close> and version key, which no
  handler reads, are left out.
\<close>

type_synonym objectId = nat
type_synonym time = nat

record subscription =
  sub_id :: objectId
  userId :: objectId
  planType :: plan
  startDate :: time
  endDate :: time
  paymentId :: "string option"
  orderId :: string
  amount :: rat
  status :: status
  rejectionReason :: "string option"
  sub_createdAt :: time

record user =
  firstName :: "string option"
  lastName :: "string option"
  email :: string
  subscriptionLevel :: plan

text \<open>The feedback schema: \<open>sentiment\<close> is \<^verbatim>\<open>'positive'\<close> or \<^verbatim>\<open>'negative'\<close>.\<close>

datatype sentiment = Positive | Negative


definition sentimentString :: "sentiment \<Rightarrow> string" where
  "sentimentString s = (case s of Positive \<Rightarrow> ''positive'' | Negative \<Rightarrow> ''negative'')"

record feedback =
  fb_id :: objectId
  fb_user :: objectId
  fb_feedback :: string
  fb_sentiment :: sentiment
  confidence :: rat
  isActive :: bool
  reviewed :: bool
  reviewedBy :: "objectId option"
  reviewedAt :: "time option"
  addressed :: bool
  addressedBy :: "objectId option"
  addressedAt :: "time option"
  response :: "string option"
  priority :: string
  category :: string
  createdAt :: time

record store =
  subscriptions :: "subscription list"
  users :: "objectId \<rightharpoonup> user"
  feedbacks :: "feedback list"

text \<open>The environment variables the payment handlers read.\<close>

record config =
  PAYHERE_MERCHANT_ID :: string
  PAYHERE_MERCHANT_SECRET :: string
  FRONTEND_URL :: string
  HOST :: string
  PORT :: string

text \<open>
  Two library functions are parameters of the model:
  \<^verbatim>\<open>crypto.createHash('md5').update(s).digest('hex')\<close>, a function from strings to strings,
  and \<^verbatim>\<open>Number.prototype.toFixed\<close> at two digits.
\<close>

type_synonym digest = "string \<Rightarrow> string"

section \<open>Requests and replies\<close>


text \<open>
  What a handler call takes from its surroundings: the clock, the value of
  \<^verbatim>\<open>Math.floor(Math.random() * 1000)\<close>.
\<close>

record ambient =
  now :: time
  random1000 :: nat

text \<open>
  The provider's form-encoded callback: every parameter arrives as a string
  (\<open>payment_method\<close> is the parameter \<^verbatim>\<open>method\<close>).
\<close>

record notification =
  merchant_id :: string
  order_id :: string
  payment_id :: string
  payhere_amount :: string
  payhere_currency :: string
  status_code :: string
  md5sig :: string
  custom_1 :: string
  payment_method :: string

record paymentData =
  pd_merchant_id :: string
  pd_return_url :: string
  pd_cancel_url :: string
  pd_notify_url :: string
  pd_order_id :: string
  pd_items :: plan
  pd_amount :: string
  pd_currency :: string
  pd_first_name :: string
  pd_last_name :: string
  pd_email :: string
  pd_phone :: string
  pd_address :: string
  pd_city :: string
  pd_country :: string
  pd_hash :: string
  pd_custom_1 :: objectId


text \<open>
  The listing's query string. \<open>q_page\<close> and \<open>q_limit\<close> are the values of
  \<^verbatim>\<open>parseInt(req.query.page)\<close> and \<^verbatim>\<open>parseInt(req.query.limit)\<close>, \<open>None\<close> for \<^verbatim>\<open>NaN\<close>.
\<close>

record feedback_query =
  q_page :: "int option"
  q_limit :: "int option"
  q_filter :: "string option"
  q_confidence :: "string option"
  q_dateRange :: "string option"
  q_sortBy :: "string option"
  q_sortOrder :: "string option"

record feedback_created =
  fc_id :: objectId
  fc_text :: string
  fc_sentiment :: sentiment
  fc_confidence :: rat
  fc_createdAt :: time

record feedback_listing =
  l_feedback :: "feedback list"
  currentPage :: int
  totalPages :: int
  totalItems :: nat
  itemsPerPage :: int
  applied_sentiment :: string
  applied_confidence :: string
  applied_dateRange :: string
  applied_sortBy :: string
  applied_sortOrder :: string

text \<open>
  A reply is the status code with the body: a \<^verbatim>\<open>{message}\<close> object, a plain text, or the
  handler's own 200/201 object.
\<close>

datatype reply =
    Message nat string
  | Sent nat string
  | PaymentJson paymentData
  | SubscriptionJson string "subscription option" "user option"
  | FeedbackJson string feedback_created
  | ListingJson feedback_listing

section \<open>The subscription collection\<close>

definition findOneByOrderId :: "subscription list \<Rightarrow> string \<Rightarrow> subscription option" where
  "findOneByOrderId subs oid = find (\<lambda>d. orderId d = oid) subs"

definition findById :: "subscription list \<Rightarrow> objectId \<Rightarrow> subscription option" where
  "findById subs i = find (\<lambda>d. sub_id d = i) subs"

text \<open>
  Saving a document that was read from the collection replaces, by its \<^verbatim>\<open>_id\<close>, the
  document stored there.
\<close>

fun saveLoaded :: "subscription \<Rightarrow> subscription list \<Rightarrow> subscription list" where
  "saveLoaded doc [] = []"
| "saveLoaded doc (d # ds) =
     (if sub_id d = sub_id doc then doc # ds else d # saveLoaded doc ds)"


section \<open>Payment initiation\<close>


definition oneYear :: nat where
  "oneYear = 365 * 24 * 60 * 60 * 1000"




section \<open>Payment notification\<close>

text \<open>
  \<^verbatim>\<open>statusMap[status_code]\<close> is a property read on an object literal: it finds the five
  own properties, and otherwise what every object inherits from \<^verbatim>\<open>Object.prototype\<close>.
\<close>

datatype 'a property = Own 'a | Inherited | Absent

definition statusMap :: "(string \<times> status) list" where
  "statusMap =
     [(''2'', Success), (''0'', Pending), (''-1'', Canceled), (''-2'', Failed),
      (''-3'', Chargedback)]"

definition objectPrototypeKeys :: "string list" where
  "objectPrototypeKeys =
     [''constructor'', ''__proto__'', ''hasOwnProperty'', ''isPrototypeOf'',
      ''propertyIsEnumerable'', ''toLocaleString'', ''toString'', ''valueOf'',
      ''__defineGetter__'', ''__defineSetter__'', ''__lookupGetter__'', ''__lookupSetter__'']"

definition getProperty :: "(string \<times> 'a) list \<Rightarrow> string \<Rightarrow> 'a property" where
  "getProperty obj k =
     (case map_of obj k of
        Some v \<Rightarrow> Own v
      | None \<Rightarrow> if k \<in> set objectPrototypeKeys then Inherited else Absent)"

definition calculatedMd5sig :: "digest \<Rightarrow> config \<Rightarrow> notification \<Rightarrow> string" where
  "calculatedMd5sig H cfg n =
     toUpperCase (H (merchant_id n @ order_id n @ payhere_amount n @ payhere_currency n @
                     status_code n @ toUpperCase (H (PAYHERE_MERCHANT_SECRET cfg))))"

text \<open>
  An inherited member is a function or an object, truthy and not one of the schema's
  status strings: the assignment takes it, \<^verbatim>\<open>save()\<close> fails validation and the handler
  answers 500.
\<close>

definition handlePaymentNotification ::
  "digest \<Rightarrow> config \<Rightarrow> notification \<Rightarrow> store \<Rightarrow> reply \<times> store" where
  "handlePaymentNotification H cfg n st =
     (if calculatedMd5sig H cfg n \<noteq> md5sig n
      then (Message 400 ''Invalid payment signature'', st)
      else case findOneByOrderId (subscriptions st) (order_id n) of
        None \<Rightarrow> (Message 404 ''Subscription not found'', st)
      | Some sub \<Rightarrow>
          (let sub1 = sub\<lparr> paymentId := Some (payment_id n) \<rparr>;
               saved = (\<lambda>s. (Sent 200 ''Payment notification received'',
                              st\<lparr> subscriptions :=
                                    saveLoaded (sub1\<lparr> status := s \<rparr>) (subscriptions st) \<rparr>))
           in case getProperty statusMap (status_code n) of
                Own Success \<Rightarrow> saved Paid
              | Own s \<Rightarrow> saved s
              | Absent \<Rightarrow> saved Pending
              | Inherited \<Rightarrow>
                  (Message 500 ''Server error during payment notification handling'', st)))"

section \<open>Subscription approval and rejection\<close>

text \<open>
  The reply carries the subscription read again after the update, with its user
  (\<^verbatim>\<open>populate\<close>). On approval the user document read from the store is saved back
  with the subscription's plan type as its level.
\<close>

definition populated :: "string \<Rightarrow> objectId \<Rightarrow> store \<Rightarrow> reply" where
  "populated msg subscriptionId st =
     (case findById (subscriptions st) subscriptionId of
        None \<Rightarrow> SubscriptionJson msg None None
      | Some d \<Rightarrow> SubscriptionJson msg (Some d) (users st (userId d)))"

definition approveSubscription :: "objectId \<Rightarrow> store \<Rightarrow> reply \<times> store" where
  "approveSubscription subscriptionId st =
     (case findById (subscriptions st) subscriptionId of
        None \<Rightarrow> (Message 404 ''Subscription not found'', st)
      | Some sub \<Rightarrow>
          if status sub \<notin> set [Pending, Paid]
          then (Message 400 ''Only pending or paid subscriptions can be approved'', st)
          else
            (let sub' = sub\<lparr> status := Success \<rparr>;
                 st1 = st\<lparr> subscriptions := saveLoaded sub' (subscriptions st) \<rparr>;
                 st2 = (case users st1 (userId sub') of
                          None \<Rightarrow> st1
                        | Some u \<Rightarrow>
                            st1\<lparr> users := (users st1)
                                  (userId sub' \<mapsto> u\<lparr> subscriptionLevel := planType sub' \<rparr>) \<rparr>)
             in (populated ''Subscription approved successfully'' subscriptionId st2, st2)))"

text \<open>\<^verbatim>\<open>if (reason)\<close>: the reason is kept when it is present and not the empty string.\<close>

definition rejectSubscription :: "objectId \<Rightarrow> string option \<Rightarrow> store \<Rightarrow> reply \<times> store" where
  "rejectSubscription subscriptionId reason st =
     (case findById (subscriptions st) subscriptionId of
        None \<Rightarrow> (Message 404 ''Subscription not found'', st)
      | Some sub \<Rightarrow>
          if status sub \<notin> set [Pending, Paid]
          then (Message 400 ''Only pending or paid subscriptions can be rejected'', st)
          else
            (let sub1 = sub\<lparr> status := Failed \<rparr>;
                 sub2 = (case reason of
                           None \<Rightarrow> sub1
                         | Some r \<Rightarrow> if r = [] then sub1 else sub1\<lparr> rejectionReason := Some r \<rparr>);
                 st' = st\<lparr> subscriptions := saveLoaded sub2 (subscriptions st) \<rparr>
             in (populated ''Subscription rejected successfully'' subscriptionId st', st')))"

section \<open>Sequences of operations on subscriptions\<close>

datatype operation =
    Notify notification
  | Approve objectId
  | Reject objectId "string option"

definition apply_op :: "digest \<Rightarrow> config \<Rightarrow> store \<Rightarrow> operation \<Rightarrow> store" where
  "apply_op H cfg st op =
     (case op of
        Notify n \<Rightarrow> snd (handlePaymentNotification H cfg n st)
      | Approve i \<Rightarrow> snd (approveSubscription i st)
      | Reject i reason \<Rightarrow> snd (rejectSubscription i reason st))"

definition run :: "digest \<Rightarrow> config \<Rightarrow> operation list \<Rightarrow> store \<Rightarrow> store" where
  "run H cfg ops st = foldl (apply_op H cfg) st ops"

definition isAdminOp :: "operation \<Rightarrow> bool" where
  "isAdminOp op = (case op of Notify n \<Rightarrow> False | Approve i \<Rightarrow> True | Reject i reason \<Rightarrow> True)"

text \<open>
  The lifecycle of the specification: pending \<open>\<rightarrow>\<close> paid \<open>\<rightarrow>\<close> success, or pending/paid
  \<open>\<rightarrow>\<close> failed/canceled/chargedback. \<open>forward s s'\<close>: \<open>s'\<close> is \<open>s\<close> or lies further along
  one of these paths.
\<close>

definition successors :: "status \<Rightarrow> status list" where
  "successors s =
     (case s of
        Pending \<Rightarrow> [Paid, Success, Failed, Canceled, Chargedback]
      | Paid \<Rightarrow> [Success, Failed, Canceled, Chargedback]
      | Success \<Rightarrow> []
      | Failed \<Rightarrow> []
      | Canceled \<Rightarrow> []
      | Chargedback \<Rightarrow> [])"

definition forward :: "status \<Rightarrow> status \<Rightarrow> bool" where
  "forward s s' = (s' = s \<or> s' \<in> set (successors s))"

text \<open>What approval and rejection do to a status: nothing, or pending/paid to success/failed.\<close>

definition adminMove :: "status \<Rightarrow> status \<Rightarrow> bool" where
  "adminMove s s' = (s' = s \<or> (s \<in> set [Pending, Paid] \<and> s' \<in> set [Success, Failed]))"

section \<open>Feedback submission\<close>






definition stringOr :: "string option \<Rightarrow> string \<Rightarrow> string" where
  "stringOr v d = (case v of None \<Rightarrow> d | Some s \<Rightarrow> if s = [] then d else s)"

definition intOr :: "int option \<Rightarrow> int \<Rightarrow> int" where
  "intOr v d = (case v of None \<Rightarrow> d | Some i \<Rightarrow> if i = 0 then d else i)"


section \<open>Feedback listing\<close>

text \<open>
  What the listing takes from the platform: the local-time start of the current day and
  of the current month, and the store's sort (by a field name, ascending or descending).
\<close>

record listing_env =
  startOfDay :: "time \<Rightarrow> time"
  startOfMonth :: "time \<Rightarrow> time"
  sortDocs :: "string \<Rightarrow> bool \<Rightarrow> feedback list \<Rightarrow> feedback list"

definition confidenceMatches :: "string \<Rightarrow> rat \<Rightarrow> bool" where
  "confidenceMatches confidenceFilter c =
     (if confidenceFilter = ''high'' then 8 / 10 \<le> c
      else if confidenceFilter = ''medium'' then 6 / 10 \<le> c \<and> c < 8 / 10
      else if confidenceFilter = ''low'' then c < 6 / 10
      else True)"

definition startDateOf :: "listing_env \<Rightarrow> time \<Rightarrow> string \<Rightarrow> int option" where
  "startDateOf env t dateRange =
     (if dateRange = ''today'' then Some (int (startOfDay env t))
      else if dateRange = ''week'' then Some (int t - 7 * 24 * 60 * 60 * 1000)
      else if dateRange = ''month'' then Some (int (startOfMonth env t))
      else None)"

definition matchesQuery ::
  "listing_env \<Rightarrow> time \<Rightarrow> string \<Rightarrow> string \<Rightarrow> string \<Rightarrow> feedback \<Rightarrow> bool" where
  "matchesQuery env t filter_q confidenceFilter dateRange d =
     (isActive d \<and>
      (if filter_q = ''all'' then True else sentimentString (fb_sentiment d) = filter_q) \<and>
      (if confidenceFilter = ''all'' then True else confidenceMatches confidenceFilter (confidence d)) \<and>
      (if dateRange = ''all'' then True
       else case startDateOf env t dateRange of
              None \<Rightarrow> True
            | Some since \<Rightarrow> since \<le> int (createdAt d)))"

text \<open>
  The store rejects a negative \<^verbatim>\<open>skip\<close> (the handler answers 500) and reads a negative
  \<^verbatim>\<open>limit\<close> as its absolute value. \<open>limit\<close> is never 0 here. The listed documents
  stand for themselves: the user details that \<^verbatim>\<open>populate\<close> joins in are left out.
\<close>

definition getAllFeedback ::
  "listing_env \<Rightarrow> ambient \<Rightarrow> feedback_query \<Rightarrow> store \<Rightarrow> reply \<times> store" where
  "getAllFeedback env a q st =
     (let page = intOr (q_page q) 1;
          limit = intOr (q_limit q) 10;
          skip = (page - 1) * limit;
          filter_q = stringOr (q_filter q) ''all'';
          confidenceFilter = stringOr (q_confidence q) ''all'';
          dateRange = stringOr (q_dateRange q) ''all'';
          sortBy = stringOr (q_sortBy q) ''createdAt'';
          sortOrder = stringOr (q_sortOrder q) ''desc'';
          matching = filter (matchesQuery env (now a) filter_q confidenceFilter dateRange)
                       (feedbacks st);
          total = length matching
      in if skip < 0
         then (Message 500 ''Server error. Please try again.'', st)
         else (ListingJson
                 \<lparr> l_feedback = take (nat \<bar>limit\<bar>)
                                  (drop (nat skip) (sortDocs env sortBy (sortOrder = ''asc'') matching)),
                   currentPage = page,
                   totalPages = \<lceil>(of_nat total :: rat) / of_int limit\<rceil>,
                   totalItems = total,
                   itemsPerPage = limit,
                   applied_sentiment = filter_q,
                   applied_confidence = confidenceFilter,
                   applied_dateRange = dateRange,
                   applied_sortBy = sortBy,
                   applied_sortOrder = sortOrder \<rparr>, st))"

section \<open>Definitions the statements use\<close>

text \<open>
  The double-hash scheme in the specification's words: hash the shared secret, then hash
  the concatenation of the public fields with that hashed secret, each time taking the
  upper-case hexadecimal digest.
\<close>

definition upperHexDigest :: "digest \<Rightarrow> string \<Rightarrow> string" where
  "upperHexDigest H s = toUpperCase (H s)"


text \<open>The string of public fields a notification's signature covers.\<close>

definition signedFields :: "notification \<Rightarrow> string" where
  "signedFields n =
     merchant_id n @ order_id n @ payhere_amount n @ payhere_currency n @ status_code n"

text \<open>The provider signs a notification with the shared secret.\<close>

definition providerSigned :: "digest \<Rightarrow> config \<Rightarrow> notification \<Rightarrow> notification" where
  "providerSigned H cfg n = n\<lparr> md5sig := calculatedMd5sig H cfg n \<rparr>"

text \<open>A numeric status code is sent as its decimal rendering.\<close>

definition showInt :: "int \<Rightarrow> string" where
  "showInt k = (if k < 0 then ''-'' @ showNat (nat (- k)) else showNat (nat k))"

section \<open>Sample inputs\<close>

text \<open>
  Concrete values on which the model is run. \<open>sampleDigest\<close> stands in for the digest
  parameter; \<open>sampleToFixed2\<close> is \<^verbatim>\<open>toFixed(2)\<close> where the result is in fixed notation
  (magnitudes below \<open>10\<^sup>2\<^sup>1\<close>): the nearest multiple of 0.01, ties away from zero.
\<close>

definition sampleDigest :: digest where
  "sampleDigest s = rev s"



definition sampleConfig :: config where
  "sampleConfig =
     \<lparr> PAYHERE_MERCHANT_ID = ''1211149'', PAYHERE_MERCHANT_SECRET = ''s3cret'',
       FRONTEND_URL = ''http://localhost:3000'', HOST = ''http://localhost'',
       PORT = ''3001'' \<rparr>"

definition sampleUser :: user where
  "sampleUser =
     \<lparr> firstName = Some ''Ann'', lastName = None, email = ''ann@example.org'',
       subscriptionLevel = Plan_Basic \<rparr>"

definition sampleSubscription :: subscription where
  "sampleSubscription =
     \<lparr> sub_id = 7, userId = 1, planType = School_Pro, startDate = 1000,
       endDate = 1000 + oneYear, paymentId = None, orderId = ''MC-1000-42'', amount = 1500,
       status = Pending, rejectionReason = None, sub_createdAt = 1000 \<rparr>"

definition sampleStore :: store where
  "sampleStore =
     \<lparr> subscriptions = [sampleSubscription], users = [1 \<mapsto> sampleUser], feedbacks = [] \<rparr>"

definition sampleAmbient :: ambient where
  "sampleAmbient = \<lparr> now = 2000, random1000 = 5 \<rparr>"

text \<open>The provider's notification for the sample order, with a given currency and status code.\<close>

definition sampleNotification :: "string \<Rightarrow> string \<Rightarrow> notification" where
  "sampleNotification currency code =
     providerSigned sampleDigest sampleConfig
       \<lparr> merchant_id = ''1211149'', order_id = ''MC-1000-42'', payment_id = ''320025'',
         payhere_amount = ''1500.00'', payhere_currency = currency, status_code = code,
         md5sig = [], custom_1 = ''1'', payment_method = ''VISA'' \<rparr>"
text \<open>
  A notification of a failed payment as the provider signs it, and a second payload that
  keeps its signature but moves the minus sign from the status code to the currency.
\<close>

definition failedNotification :: notification where
  "failedNotification = sampleNotification ''LKR'' ''-2''"

definition forgedNotification :: notification where
  "forgedNotification = failedNotification\<lparr> payhere_currency := ''LKR-'', status_code := ''2'' \<rparr>"

text \<open>A payload with a changed amount under the signature of a successful payment.\<close>

definition tamperedAmount :: notification where
  "tamperedAmount = (sampleNotification ''LKR'' ''2'')\<lparr> payhere_amount := ''1.00'' \<rparr>"

text \<open>
  The provider's notification of a successful payment, the administrator's approval, and
  the same notification delivered once more.
\<close>

definition replayedOperations :: "operation list" where
  "replayedOperations =
     [Notify (sampleNotification ''LKR'' ''2''), Approve 7,
      Notify (sampleNotification ''LKR'' ''2'')]"








text \<open>
  Listing samples: a platform in UTC on the first day of a month whose store keeps the
  documents in creation order; three active feedback documents; the second page of two
  items, and a query with a negative limit.
\<close>

definition utcStartOfDay :: "time \<Rightarrow> time" where
  "utcStartOfDay t = t - t mod 86400000"

definition creationOrder :: "string \<Rightarrow> bool \<Rightarrow> feedback list \<Rightarrow> feedback list" where
  "creationOrder field ascending docs = (if ascending then docs else rev docs)"

definition sampleListingEnv :: listing_env where
  "sampleListingEnv =
     \<lparr> startOfDay = utcStartOfDay, startOfMonth = utcStartOfDay, sortDocs = creationOrder \<rparr>"

definition sampleFeedback :: "objectId \<Rightarrow> sentiment \<Rightarrow> rat \<Rightarrow> feedback" where
  "sampleFeedback i s c =
     \<lparr> fb_id = i, fb_user = 1, fb_feedback = ''ok'', fb_sentiment = s, confidence = c,
       isActive = True, reviewed = False, reviewedBy = None, reviewedAt = None,
       addressed = False, addressedBy = None, addressedAt = None, response = None,
       priority = ''medium'', category = ''general'', createdAt = 1000 + i \<rparr>"

definition feedbackStore :: store where
  "feedbackStore =
     sampleStore\<lparr> feedbacks :=
       [sampleFeedback 1 Positive (9 / 10), sampleFeedback 2 Negative (6 / 10),
        sampleFeedback 3 Positive (7 / 10)] \<rparr>"

definition secondPageQuery :: feedback_query where
  "secondPageQuery =
     \<lparr> q_page = Some 2, q_limit = Some 2, q_filter = None, q_confidence = None,
       q_dateRange = None, q_sortBy = None, q_sortOrder = None \<rparr>"

definition negativeLimitQuery :: feedback_query where
  "negativeLimitQuery =
     \<lparr> q_page = None, q_limit = Some (- 2), q_filter = None, q_confidence = None,
       q_dateRange = None, q_sortBy = None, q_sortOrder = None \<rparr>"

definition secondPage :: feedback_listing where
  "secondPage =
     \<lparr> l_feedback = [sampleFeedback 1 Positive (9 / 10)], currentPage = 2, totalPages = 2,
       totalItems = 3, itemsPerPage = 2, applied_sentiment = ''all'',
       applied_confidence = ''all'', applied_dateRange = ''all'',
       applied_sortBy = ''createdAt'', applied_sortOrder = ''desc'' \<rparr>"

definition negativeLimitPage :: feedback_listing where
  "negativeLimitPage =
     \<lparr> l_feedback = [sampleFeedback 3 Positive (7 / 10), sampleFeedback 2 Negative (6 / 10)],
       currentPage = 1, totalPages = - 1, totalItems = 3, itemsPerPage = - 2,
       applied_sentiment = ''all'', applied_confidence = ''all'', applied_dateRange = ''all'',
       applied_sortBy = ''createdAt'', applied_sortOrder = ''desc'' \<rparr>"

section \<open>Facts about the subscription collection\<close>

lemma findById_saveLoaded:
  "x \<in> set subs \<Longrightarrow> sub_id doc = sub_id x \<Longrightarrow>
   findById (saveLoaded doc subs) (sub_id x) = Some doc"
  by (induction subs) (auto simp: findById_def)

lemma findOneByOrderId_mem:
  "findOneByOrderId subs oid = Some x \<Longrightarrow> x \<in> set subs"
  by (auto simp: findOneByOrderId_def find_Some_iff)

lemma findById_mem:
  "findById subs i = Some x \<Longrightarrow> x \<in> set subs \<and> sub_id x = i"
  by (auto simp: findById_def find_Some_iff)

section \<open>Facts about the sample inputs\<close>

lemma sampleNotification_verified:
  "calculatedMd5sig sampleDigest sampleConfig (sampleNotification cur code)
     = md5sig (sampleNotification cur code)"
  by (simp add: sampleNotification_def providerSigned_def calculatedMd5sig_def)

lemma sampleNotification_fields:
  "status_code (sampleNotification cur code) = code"
  "payhere_currency (sampleNotification cur code) = cur"
  "payment_id (sampleNotification cur code) = ''320025''"
  "order_id (sampleNotification cur code) = ''MC-1000-42''"
  by (simp_all add: sampleNotification_def providerSigned_def)

lemma sample_findOne:
  "findOneByOrderId (subscriptions sampleStore) (order_id (sampleNotification cur code))
     = Some sampleSubscription"
  by (simp add: sampleNotification_fields findOneByOrderId_def sampleStore_def
      sampleSubscription_def)

section \<open>Decimal renderings\<close>

lemma digitChar_digit: "d < 10 \<Longrightarrow> digitChar d \<in> set ''0123456789''"
  unfolding digitChar_def by (rule nth_mem) simp

lemma digitChar_inj: "d < 10 \<Longrightarrow> e < 10 \<Longrightarrow> digitChar d = digitChar e \<Longrightarrow> d = e"
proof -
  assume "d < 10" "e < 10" "digitChar d = digitChar e"
  moreover have "distinct ''0123456789''" by simp
  ultimately show "d = e"
    unfolding digitChar_def by (simp add: nth_eq_iff_index_eq)
qed

lemma showNat_digits: "set (showNat n) \<subseteq> set ''0123456789''"
proof (induction n rule: showNat.induct)
  case (1 n)
  show ?case
  proof (cases "n < 10")
    case True
    then show ?thesis
      using digitChar_digit [of n] by (subst showNat.simps) simp
  next
    case False
    then have "set (showNat (n div 10)) \<subseteq> set ''0123456789''" by (rule 1)
    moreover have "digitChar (n mod 10) \<in> set ''0123456789''"
      by (rule digitChar_digit) simp
    ultimately show ?thesis
      using False by (subst showNat.simps) simp
  qed
qed

lemma showNat_nonempty: "showNat n \<noteq> []"
  by (subst showNat.simps) simp

lemma showNat_single: "showNat n = [c] \<longleftrightarrow> n < 10 \<and> digitChar n = c"
proof (cases "n < 10")
  case True
  then show ?thesis by (subst showNat.simps) simp
next
  case False
  then have "showNat n = showNat (n div 10) @ [digitChar (n mod 10)]"
    by (subst showNat.simps) simp
  then show ?thesis using False showNat_nonempty [of "n div 10"] by auto
qed

lemma showNat_small: "n < 10 \<Longrightarrow> showNat n = [digitChar n]"
  by (subst showNat.simps) simp

lemma showNat_eq_digit: "d < 10 \<Longrightarrow> showNat n = [digitChar d] \<longleftrightarrow> n = d"
  using digitChar_inj [of n d] by (auto simp: showNat_single)

lemma showInt_nonneg_hd: "0 \<le> k \<Longrightarrow> showInt k \<noteq> [] \<and> hd (showInt k) \<in> set ''0123456789''"
  using showNat_digits [of "nat k"] showNat_nonempty [of "nat k"]
  by (cases "showNat (nat k)") (auto simp: showInt_def)

lemma showInt_neg: "k < 0 \<Longrightarrow> showInt k = CHR ''-'' # showNat (nat (- k))"
  by (simp add: showInt_def)

lemma digit_literals: "CHR ''2'' = digitChar 2" "CHR ''0'' = digitChar 0" "CHR ''1'' = digitChar 1" "CHR ''3'' = digitChar 3"
  by (simp_all add: digitChar_def)

lemma showInt_eq_2: "showInt k = ''2'' \<longleftrightarrow> k = 2"
proof (cases "k < 0")
  case True then show ?thesis by (simp add: showInt_neg)
next
  case False
  then show ?thesis
    using showNat_eq_digit [of 2 "nat k"] by (auto simp: showInt_def digit_literals)
qed

lemma showInt_eq_0: "showInt k = ''0'' \<longleftrightarrow> k = 0"
proof (cases "k < 0")
  case True then show ?thesis by (simp add: showInt_neg)
next
  case False
  then show ?thesis
    using showNat_eq_digit [of 0 "nat k"] by (auto simp: showInt_def digit_literals)
qed

lemma showInt_eq_neg: "d < 10 \<Longrightarrow> 0 < d \<Longrightarrow> showInt k = CHR ''-'' # [digitChar d] \<longleftrightarrow> k = - int d"
proof (cases "k < 0")
  case True
  assume "d < 10" "0 < d"
  then show ?thesis
    using True showNat_eq_digit [of d "nat (- k)"] by (auto simp: showInt_neg)
next
  case False
  assume "d < 10" "0 < d"
  then show ?thesis
    using False showInt_nonneg_hd [of k] by (cases "showInt k") auto
qed

lemma showInt_eq_m1: "showInt k = ''-1'' \<longleftrightarrow> k = - 1"
  using showInt_eq_neg [of 1 k] by (simp add: digitChar_def)

lemma showInt_eq_m2: "showInt k = ''-2'' \<longleftrightarrow> k = - 2"
  using showInt_eq_neg [of 2 k] by (simp add: digitChar_def)

lemma showInt_eq_m3: "showInt k = ''-3'' \<longleftrightarrow> k = - 3"
  using showInt_eq_neg [of 3 k] by (simp add: digitChar_def)

lemma showInt_statusMap:
  "map_of statusMap (showInt k) =
     (if k = 2 then Some Success else if k = 0 then Some Pending
      else if k = - 1 then Some Canceled else if k = - 2 then Some Failed
      else if k = - 3 then Some Chargedback else None)"
  by (simp add: statusMap_def showInt_eq_2 showInt_eq_0 showInt_eq_m1 showInt_eq_m2
      showInt_eq_m3)

lemma showInt_not_inherited: "showInt k \<notin> set objectPrototypeKeys"
proof (cases "k < 0")
  case True
  then show ?thesis by (simp add: showInt_neg objectPrototypeKeys_def)
next
  case False
  then show ?thesis
    using showInt_nonneg_hd [of k] by (auto simp: objectPrototypeKeys_def)
qed

section \<open>Facts about the notification handler\<close>

lemma handlePaymentNotification_verified:
  assumes "calculatedMd5sig H cfg n = md5sig n"
    and "findOneByOrderId (subscriptions st) (order_id n) = Some sub"
    and "status_code n \<notin> set objectPrototypeKeys"
  shows "handlePaymentNotification H cfg n st =
           (Sent 200 ''Payment notification received'',
            st\<lparr> subscriptions :=
                  saveLoaded
                    (sub\<lparr> paymentId := Some (payment_id n),
                          status := (case map_of statusMap (status_code n) of
                                       None \<Rightarrow> Pending
                                     | Some Success \<Rightarrow> Paid
                                     | Some s \<Rightarrow> s) \<rparr>)
                    (subscriptions st) \<rparr>)"
  using assms
  by (simp add: handlePaymentNotification_def getProperty_def
      split: option.splits status.splits)

lemma stored_after_save:
  assumes "findOneByOrderId subs oid = Some sub"
  shows "findById (saveLoaded (sub\<lparr> paymentId := p, status := s \<rparr>) subs) (sub_id sub)
           = Some (sub\<lparr> paymentId := p, status := s \<rparr>)"
  using findOneByOrderId_mem [OF assms] by (intro findById_saveLoaded) simp_all

lemma notification_inherited_key:
  assumes "calculatedMd5sig H cfg n = md5sig n"
    and "findOneByOrderId (subscriptions st) (order_id n) = Some sub"
    and "status_code n \<in> set objectPrototypeKeys"
  shows "handlePaymentNotification H cfg n st =
           (Message 500 ''Server error during payment notification handling'', st)"
proof -
  have "map_of statusMap (status_code n) = None"
    using assms(3) by (auto simp: statusMap_def objectPrototypeKeys_def)
  then show ?thesis
    using assms by (simp add: handlePaymentNotification_def getProperty_def)
qed

section \<open>Payment notification: a successful code marks the subscription paid\<close>

text \<open>
  C1. A notification that passes the signature check and carries the provider's
  successful status code 2 is answered 200, and the subscription found by its order id is
  saved with status paid (and the notification's payment id): read back by its id, its
  status is paid, not success.
\<close>

theorem notification_success_sets_paid:
  assumes "calculatedMd5sig H cfg n = md5sig n"
    and "status_code n = ''2''"
    and "findOneByOrderId (subscriptions st) (order_id n) = Some sub"
  shows "handlePaymentNotification H cfg n st =
           (Sent 200 ''Payment notification received'',
            st\<lparr> subscriptions :=
                  saveLoaded (sub\<lparr> paymentId := Some (payment_id n), status := Paid \<rparr>)
                    (subscriptions st) \<rparr>)
         \<and> map_option status
              (findById (subscriptions (snd (handlePaymentNotification H cfg n st))) (sub_id sub))
             = Some Paid
         \<and> map_option status
              (findById (subscriptions (snd (handlePaymentNotification H cfg n st))) (sub_id sub))
             \<noteq> Some Success"
proof -
  have run: "handlePaymentNotification H cfg n st =
           (Sent 200 ''Payment notification received'',
            st\<lparr> subscriptions :=
                  saveLoaded (sub\<lparr> paymentId := Some (payment_id n), status := Paid \<rparr>)
                    (subscriptions st) \<rparr>)"
    using assms by (simp add: handlePaymentNotification_def getProperty_def statusMap_def)
  have "sub \<in> set (subscriptions st)"
    using assms(3) by (rule findOneByOrderId_mem)
  then have "findById (saveLoaded (sub\<lparr> paymentId := Some (payment_id n), status := Paid \<rparr>)
                 (subscriptions st)) (sub_id sub)
             = Some (sub\<lparr> paymentId := Some (payment_id n), status := Paid \<rparr>)"
    by (intro findById_saveLoaded) simp_all
  with run show ?thesis by simp
qed

theorem notification_success_sets_paid_witness:
  "handlePaymentNotification sampleDigest sampleConfig (sampleNotification ''LKR'' ''2'')
     sampleStore
     = (Sent 200 ''Payment notification received'',
        sampleStore\<lparr> subscriptions :=
          [sampleSubscription\<lparr> paymentId := Some ''320025'', status := Paid \<rparr>] \<rparr>)"
  using notification_success_sets_paid
    [OF sampleNotification_verified sampleNotification_fields(1) sample_findOne]
  by (simp add: sampleNotification_fields sampleStore_def)

section \<open>Payment notification: the other status codes\<close>

text \<open>
  C5. A notification that passes the signature check and carries a numeric status code
  \<open>k\<close> other than the successful code 2 is answered 200, and the subscription found by
  its order id is saved with the status the fixed mapping gives: 0 pending, -1 canceled,
  -2 failed, -3 chargedback, and pending for every other code.
\<close>

theorem notification_other_codes:
  assumes "calculatedMd5sig H cfg n = md5sig n"
    and "status_code n = showInt k"
    and "k \<noteq> 2"
    and "findOneByOrderId (subscriptions st) (order_id n) = Some sub"
  shows "handlePaymentNotification H cfg n st =
           (Sent 200 ''Payment notification received'',
            st\<lparr> subscriptions :=
                  saveLoaded
                    (sub\<lparr> paymentId := Some (payment_id n),
                          status := (if k = 0 then Pending else if k = - 1 then Canceled
                                     else if k = - 2 then Failed
                                     else if k = - 3 then Chargedback else Pending) \<rparr>)
                    (subscriptions st) \<rparr>)
         \<and> map_option status
              (findById (subscriptions (snd (handlePaymentNotification H cfg n st))) (sub_id sub))
             = Some (if k = 0 then Pending else if k = - 1 then Canceled
                     else if k = - 2 then Failed
                     else if k = - 3 then Chargedback else Pending)"
proof -
  have "status_code n \<notin> set objectPrototypeKeys"
    by (simp add: assms(2) showInt_not_inherited)
  from handlePaymentNotification_verified [OF assms(1) assms(4) this]
  show ?thesis
    using assms(3) stored_after_save [OF assms(4)]
    by (simp add: assms(2) showInt_statusMap)
qed

theorem notification_other_codes_witness:
  "handlePaymentNotification sampleDigest sampleConfig (sampleNotification ''LKR'' ''-2'')
     sampleStore
     = (Sent 200 ''Payment notification received'',
        sampleStore\<lparr> subscriptions :=
          [sampleSubscription\<lparr> paymentId := Some ''320025'', status := Failed \<rparr>] \<rparr>)"
proof -
  have code: "status_code (sampleNotification ''LKR'' ''-2'') = showInt (- 2)"
    by (simp add: sampleNotification_fields showInt_eq_m2 [THEN iffD2])
  have "(- 2 :: int) \<noteq> 2" by simp
  from notification_other_codes [OF sampleNotification_verified code this sample_findOne]
  show ?thesis
    by (simp add: sampleNotification_fields sampleStore_def)
qed

section \<open>Payment notification: the signature check\<close>

lemma calculatedMd5sig_signedFields:
  "calculatedMd5sig H cfg n =
     upperHexDigest H (signedFields n @ upperHexDigest H (PAYHERE_MERCHANT_SECRET cfg))"
  by (simp add: calculatedMd5sig_def upperHexDigest_def signedFields_def)

lemma same_signedFields_same_sig:
  "signedFields n' = signedFields n \<Longrightarrow> calculatedMd5sig H cfg n' = calculatedMd5sig H cfg n"
  by (simp add: calculatedMd5sig_signedFields)

lemma rejected_iff:
  "handlePaymentNotification H cfg n st = (Message 400 ''Invalid payment signature'', st)
     \<longleftrightarrow> calculatedMd5sig H cfg n \<noteq> md5sig n"
  by (auto simp: handlePaymentNotification_def Let_def
      split: option.splits property.splits status.splits)

lemma sample_signed_strings:
  "signedFields (sampleNotification ''LKR'' ''2'') = ''1211149MC-1000-421500.00LKR2''"
  "signedFields tamperedAmount = ''1211149MC-1000-421.00LKR2''"
  by (simp_all add: tamperedAmount_def sampleNotification_def providerSigned_def signedFields_def)

lemma sample_digests:
  "upperHexDigest sampleDigest
     (''1211149MC-1000-421500.00LKR2'' @ upperHexDigest sampleDigest ''s3cret'')
     = ''S3CRET2RKL00.005124-0001-CM9411121''"
  "upperHexDigest sampleDigest
     (''1211149MC-1000-421.00LKR2'' @ upperHexDigest sampleDigest ''s3cret'')
     = ''S3CRET2RKL00.124-0001-CM9411121''"
  by (simp_all add: upperHexDigest_def sampleDigest_def toUpperCase_def toUpperChar_def)

lemma sample_no_collision:
  "inj_on (upperHexDigest sampleDigest)
           {signedFields (sampleNotification ''LKR'' ''2'')
              @ upperHexDigest sampleDigest (PAYHERE_MERCHANT_SECRET sampleConfig),
            signedFields tamperedAmount
              @ upperHexDigest sampleDigest (PAYHERE_MERCHANT_SECRET sampleConfig)}"
proof -
  have secret: "PAYHERE_MERCHANT_SECRET sampleConfig = ''s3cret''"
    by (simp add: sampleConfig_def)
  have "upperHexDigest sampleDigest
          (''1211149MC-1000-421500.00LKR2'' @ upperHexDigest sampleDigest ''s3cret'')
        \<noteq> upperHexDigest sampleDigest
          (''1211149MC-1000-421.00LKR2'' @ upperHexDigest sampleDigest ''s3cret'')"
    unfolding sample_digests by simp
  then show ?thesis
    unfolding sample_signed_strings secret by (simp add: inj_on_def)
qed

lemma forged_same_fields: "signedFields forgedNotification = signedFields failedNotification"
  by (simp add: forgedNotification_def failedNotification_def sampleNotification_def
      providerSigned_def signedFields_def)

lemma forged_fields:
  "md5sig forgedNotification = md5sig failedNotification"
  "status_code forgedNotification = ''2''"
  "payhere_currency forgedNotification = ''LKR-''"
  "payment_id forgedNotification = ''320025''"
  "order_id forgedNotification = ''MC-1000-42''"
  by (simp_all add: forgedNotification_def failedNotification_def sampleNotification_fields)

lemma failed_fields:
  "status_code failedNotification = ''-2''"
  "payhere_currency failedNotification = ''LKR''"
  by (simp_all add: failedNotification_def sampleNotification_fields)

lemma failed_verified:
  "calculatedMd5sig sampleDigest sampleConfig failedNotification = md5sig failedNotification"
  unfolding failedNotification_def by (rule sampleNotification_verified)

lemma forged_verified:
  "calculatedMd5sig sampleDigest sampleConfig forgedNotification = md5sig forgedNotification"
  using same_signedFields_same_sig [OF forged_same_fields, of sampleDigest sampleConfig]
    failed_verified
  by (simp add: forged_fields)

lemma forged_run:
  "handlePaymentNotification sampleDigest sampleConfig forgedNotification sampleStore
       = (Sent 200 ''Payment notification received'',
          sampleStore\<lparr> subscriptions :=
            [sampleSubscription\<lparr> paymentId := Some ''320025'', status := Paid \<rparr>] \<rparr>)"
proof -
  have f: "findOneByOrderId (subscriptions sampleStore) (order_id forgedNotification)
             = Some sampleSubscription"
    by (simp add: forged_fields findOneByOrderId_def sampleStore_def sampleSubscription_def)
  have k: "status_code forgedNotification \<notin> set objectPrototypeKeys"
    by (simp add: forged_fields objectPrototypeKeys_def)
  have m: "map_of statusMap ''2'' = Some Success"
    by (simp add: statusMap_def)
  have sv: "saveLoaded (sampleSubscription\<lparr> paymentId := Some ''320025'', status := Paid \<rparr>)
              (subscriptions sampleStore)
            = [sampleSubscription\<lparr> paymentId := Some ''320025'', status := Paid \<rparr>]"
    by (simp add: sampleStore_def)
  show ?thesis
    unfolding handlePaymentNotification_verified [OF forged_verified f k] forged_fields m
    by (simp add: sv)
qed

text \<open>
  C2, as amended. Let a payload be accepted (its signature matches the recomputed one) and
  let a second payload carry the same signature. If the digest does not collide on the
  two strings the handler hashes, the second payload is rejected with 400 and the store
  is left as it was exactly when the concatenation
  \<^verbatim>\<open>merchant_id + order_id + payhere_amount + payhere_currency + status_code\<close> of its
  fields differs from the first payload's.
\<close>

theorem tampered_notification_rejected:
  assumes "calculatedMd5sig H cfg n = md5sig n"
    and "md5sig n' = md5sig n"
    and "inj_on (upperHexDigest H)
           {signedFields n @ upperHexDigest H (PAYHERE_MERCHANT_SECRET cfg),
            signedFields n' @ upperHexDigest H (PAYHERE_MERCHANT_SECRET cfg)}"
  shows "handlePaymentNotification H cfg n' st = (Message 400 ''Invalid payment signature'', st)
           \<longleftrightarrow> signedFields n' \<noteq> signedFields n"
proof (cases "signedFields n' = signedFields n")
  case True
  then have "calculatedMd5sig H cfg n' = md5sig n'"
    using assms(1,2) same_signedFields_same_sig [of n' n H cfg] by simp
  with True show ?thesis by (simp add: rejected_iff)
next
  case False
  have "calculatedMd5sig H cfg n' \<noteq> calculatedMd5sig H cfg n"
  proof
    assume "calculatedMd5sig H cfg n' = calculatedMd5sig H cfg n"
    then have "upperHexDigest H (signedFields n' @ upperHexDigest H (PAYHERE_MERCHANT_SECRET cfg))
             = upperHexDigest H (signedFields n @ upperHexDigest H (PAYHERE_MERCHANT_SECRET cfg))"
      by (simp only: calculatedMd5sig_signedFields)
    from inj_onD [OF assms(3) this]
    have "signedFields n' @ upperHexDigest H (PAYHERE_MERCHANT_SECRET cfg)
             = signedFields n @ upperHexDigest H (PAYHERE_MERCHANT_SECRET cfg)"
      by blast
    with False show False by simp
  qed
  then have "calculatedMd5sig H cfg n' \<noteq> md5sig n'"
    using assms(1,2) by simp
  with False show ?thesis by (simp add: rejected_iff)
qed

theorem tampered_notification_rejected_witness:
  "handlePaymentNotification sampleDigest sampleConfig tamperedAmount sampleStore
     = (Message 400 ''Invalid payment signature'', sampleStore)"
proof -
  have sig: "md5sig tamperedAmount = md5sig (sampleNotification ''LKR'' ''2'')"
    by (simp add: tamperedAmount_def)
  have diff: "signedFields tamperedAmount \<noteq> signedFields (sampleNotification ''LKR'' ''2'')"
    unfolding sample_signed_strings by simp
  show ?thesis
    by (rule tampered_notification_rejected
          [OF sampleNotification_verified sig sample_no_collision, THEN iffD2, OF diff])
qed

text \<open>
  C2 as stated fails: the fields are concatenated without separators, so a payload can
  differ in the currency and the status code and still sign the same string. The provider
  signs a notification of a failed payment (currency \<^verbatim>\<open>LKR\<close>, status code \<^verbatim>\<open>-2\<close>); the
  payload with currency \<^verbatim>\<open>LKR-\<close> and status code \<^verbatim>\<open>2\<close> under the same signature is
  accepted and marks the subscription paid.
\<close>

theorem forged_notification_accepted:
  "calculatedMd5sig sampleDigest sampleConfig failedNotification = md5sig failedNotification
   \<and> md5sig forgedNotification = md5sig failedNotification
   \<and> payhere_currency forgedNotification \<noteq> payhere_currency failedNotification
   \<and> status_code forgedNotification \<noteq> status_code failedNotification
   \<and> handlePaymentNotification sampleDigest sampleConfig forgedNotification sampleStore
       = (Sent 200 ''Payment notification received'',
          sampleStore\<lparr> subscriptions :=
            [sampleSubscription\<lparr> paymentId := Some ''320025'', status := Paid \<rparr>] \<rparr>)"
proof (intro conjI)
  show "payhere_currency forgedNotification \<noteq> payhere_currency failedNotification"
    by (simp add: forged_fields failed_fields)
  show "status_code forgedNotification \<noteq> status_code failedNotification"
    by (simp add: forged_fields failed_fields)
qed (rule failed_verified forged_fields(1) forged_run)+

section \<open>Subscription approval: the status precondition\<close>

lemma findById_saveLoaded_self:
  "findById subs i = Some sub \<Longrightarrow> sub_id doc = i \<Longrightarrow>
   findById (saveLoaded doc subs) i = Some doc"
  using findById_mem [of subs i sub] findById_saveLoaded [of sub subs doc] by auto

lemma approveSubscription_found:
  assumes "findById (subscriptions st) i = Some sub"
    and "status sub = Pending \<or> status sub = Paid"
  shows "approveSubscription i st =
           (SubscriptionJson ''Subscription approved successfully''
              (Some (sub\<lparr> status := Success \<rparr>))
              (map_option (\<lambda>u. u\<lparr> subscriptionLevel := planType sub \<rparr>) (users st (userId sub))),
            st\<lparr> subscriptions := saveLoaded (sub\<lparr> status := Success \<rparr>) (subscriptions st),
                users := (case users st (userId sub) of
                            None \<Rightarrow> users st
                          | Some u \<Rightarrow>
                              (users st)(userId sub \<mapsto> u\<lparr> subscriptionLevel := planType sub \<rparr>)) \<rparr>)"
proof -
  have rd: "findById (saveLoaded (sub\<lparr> status := Success \<rparr>) (subscriptions st)) i
              = Some (sub\<lparr> status := Success \<rparr>)"
    using assms(1) findById_mem [OF assms(1)] by (intro findById_saveLoaded_self) simp_all
  show ?thesis
    using assms rd
    by (cases "users st (userId sub)")
       (auto simp: approveSubscription_def populated_def Let_def)
qed

lemma approveSubscription_refused:
  assumes "findById (subscriptions st) i = Some sub"
    and "\<not> (status sub = Pending \<or> status sub = Paid)"
  shows "approveSubscription i st =
           (Message 400 ''Only pending or paid subscriptions can be approved'', st)"
  using assms by (simp add: approveSubscription_def)

lemma sample_findById: "findById (subscriptions sampleStore) 7 = Some sampleSubscription"
  by (simp add: findById_def sampleStore_def sampleSubscription_def)

text \<open>
  C4. For a subscription that exists, approval succeeds exactly when its status is pending
  or paid. Then the stored subscription becomes the same document with status success,
  and the user the subscription refers to, when there is one, gets the subscription's
  plan type as subscription level. In every other status the reply is 400 and the store
  is unchanged.
\<close>

theorem approveSubscription_exactly_pending_or_paid:
  assumes "findById (subscriptions st) i = Some sub"
  shows "(status sub = Pending \<or> status sub = Paid \<longrightarrow>
            approveSubscription i st =
              (SubscriptionJson ''Subscription approved successfully''
                 (Some (sub\<lparr> status := Success \<rparr>))
                 (map_option (\<lambda>u. u\<lparr> subscriptionLevel := planType sub \<rparr>)
                    (users st (userId sub))),
               st\<lparr> subscriptions := saveLoaded (sub\<lparr> status := Success \<rparr>) (subscriptions st),
                   users := (case users st (userId sub) of
                               None \<Rightarrow> users st
                             | Some u \<Rightarrow>
                                 (users st)
                                   (userId sub \<mapsto> u\<lparr> subscriptionLevel := planType sub \<rparr>)) \<rparr>)
            \<and> findById (subscriptions (snd (approveSubscription i st))) i
                  = Some (sub\<lparr> status := Success \<rparr>)
            \<and> map_option subscriptionLevel (users (snd (approveSubscription i st)) (userId sub))
                  = map_option (\<lambda>u. planType sub) (users st (userId sub)))
       \<and> (\<not> (status sub = Pending \<or> status sub = Paid) \<longrightarrow>
            approveSubscription i st =
              (Message 400 ''Only pending or paid subscriptions can be approved'', st))"
proof (intro conjI impI)
  assume ok: "status sub = Pending \<or> status sub = Paid"
  note run = approveSubscription_found [OF assms ok]
  show "approveSubscription i st =
              (SubscriptionJson ''Subscription approved successfully''
                 (Some (sub\<lparr> status := Success \<rparr>))
                 (map_option (\<lambda>u. u\<lparr> subscriptionLevel := planType sub \<rparr>)
                    (users st (userId sub))),
               st\<lparr> subscriptions := saveLoaded (sub\<lparr> status := Success \<rparr>) (subscriptions st),
                   users := (case users st (userId sub) of
                               None \<Rightarrow> users st
                             | Some u \<Rightarrow>
                                 (users st)
                                   (userId sub \<mapsto> u\<lparr> subscriptionLevel := planType sub \<rparr>)) \<rparr>)"
    by (rule run)
  show "findById (subscriptions (snd (approveSubscription i st))) i
                  = Some (sub\<lparr> status := Success \<rparr>)"
    using assms findById_mem [OF assms]
    by (simp add: run findById_saveLoaded_self)
  show "map_option subscriptionLevel (users (snd (approveSubscription i st)) (userId sub))
                  = map_option (\<lambda>u. planType sub) (users st (userId sub))"
    by (cases "users st (userId sub)") (simp_all add: run)
next
  assume "\<not> (status sub = Pending \<or> status sub = Paid)"
  then show "approveSubscription i st =
              (Message 400 ''Only pending or paid subscriptions can be approved'', st)"
    by (rule approveSubscription_refused [OF assms])
qed

theorem approveSubscription_exactly_pending_or_paid_witness:
  "approveSubscription 7 sampleStore =
     (SubscriptionJson ''Subscription approved successfully''
        (Some (sampleSubscription\<lparr> status := Success \<rparr>))
        (Some (sampleUser\<lparr> subscriptionLevel := School_Pro \<rparr>)),
      sampleStore\<lparr> subscriptions := [sampleSubscription\<lparr> status := Success \<rparr>],
                   users := [1 \<mapsto> sampleUser\<lparr> subscriptionLevel := School_Pro \<rparr>] \<rparr>)"
proof -
  have "status sampleSubscription = Pending \<or> status sampleSubscription = Paid"
    by (simp add: sampleSubscription_def)
  with approveSubscription_exactly_pending_or_paid [OF sample_findById]
  have "approveSubscription 7 sampleStore =
              (SubscriptionJson ''Subscription approved successfully''
                 (Some (sampleSubscription\<lparr> status := Success \<rparr>))
                 (map_option (\<lambda>u. u\<lparr> subscriptionLevel := planType sampleSubscription \<rparr>)
                    (users sampleStore (userId sampleSubscription))),
               sampleStore\<lparr> subscriptions :=
                     saveLoaded (sampleSubscription\<lparr> status := Success \<rparr>) (subscriptions sampleStore),
                   users := (case users sampleStore (userId sampleSubscription) of
                               None \<Rightarrow> users sampleStore
                             | Some u \<Rightarrow>
                                 (users sampleStore)
                                   (userId sampleSubscription \<mapsto>
                                      u\<lparr> subscriptionLevel := planType sampleSubscription \<rparr>)) \<rparr>)"
    by blast
  moreover have "userId sampleSubscription = 1" "planType sampleSubscription = School_Pro"
    by (simp_all add: sampleSubscription_def)
  moreover have "users sampleStore = [1 \<mapsto> sampleUser]"
    "subscriptions sampleStore = [sampleSubscription]"
    by (simp_all add: sampleStore_def)
  ultimately show ?thesis by simp
qed

section \<open>Subscription rejection: what it leaves unchanged\<close>

lemma saveLoaded_rel:
  assumes "\<And>d. R d d"
    and "\<And>d. d \<in> set subs \<Longrightarrow> sub_id d = sub_id doc \<Longrightarrow> find (\<lambda>x. sub_id x = sub_id doc) subs = Some d \<Longrightarrow> R d doc"
  shows "list_all2 R subs (saveLoaded doc subs)"
  using assms(2)
proof (induction subs)
  case Nil
  then show ?case by simp
next
  case (Cons a subs)
  show ?case
  proof (cases "sub_id a = sub_id doc")
    case True
    then have "R a doc" using Cons.prems [of a] by simp
    then show ?thesis using True assms(1) by (simp add: list_all2_refl)
  next
    case False
    have "list_all2 R subs (saveLoaded doc subs)"
    proof (rule Cons.IH)
      fix d assume "d \<in> set subs" "sub_id d = sub_id doc"
        "find (\<lambda>x. sub_id x = sub_id doc) subs = Some d"
      then show "R d doc" using Cons.prems [of d] False by simp
    qed
    then show ?thesis using False assms(1) by simp
  qed
qed

lemma saveLoaded_found_rel:
  assumes "\<And>d. R d d" and "findById subs i = Some sub" and "sub_id doc = i" and "R sub doc"
  shows "list_all2 R subs (saveLoaded doc subs)"
proof (rule saveLoaded_rel)
  fix d assume "find (\<lambda>x. sub_id x = sub_id doc) subs = Some d"
  then have "d = sub" using assms(2,3) by (simp add: findById_def)
  then show "R d doc" using assms(4) by simp
qed (rule assms(1))

lemma rejectSubscription_found:
  assumes "findById (subscriptions st) i = Some sub"
    and "status sub = Pending \<or> status sub = Paid"
  shows "snd (rejectSubscription i reason st) =
           st\<lparr> subscriptions :=
                 saveLoaded (sub\<lparr> status := Failed,
                                  rejectionReason :=
                                    (case reason of
                                       None \<Rightarrow> rejectionReason sub
                                     | Some r \<Rightarrow> if r = [] then rejectionReason sub else Some r) \<rparr>)
                   (subscriptions st) \<rparr>"
  using assms
  by (auto simp: rejectSubscription_def Let_def split: option.splits)





section \<open>The status under sequences of operations\<close>

lemma adminMove_refl: "adminMove s s"
  by (simp add: adminMove_def)

lemma adminMove_trans: "adminMove s s' \<Longrightarrow> adminMove s' s'' \<Longrightarrow> adminMove s s''"
  by (auto simp: adminMove_def)

lemma adminMove_forward: "adminMove s s' \<Longrightarrow> forward s s'"
  by (auto simp: adminMove_def forward_def successors_def)

lemma adminMove_terminal:
  "adminMove s s' \<Longrightarrow> s \<in> set [Success, Failed, Canceled, Chargedback] \<Longrightarrow> s' = s"
  by (auto simp: adminMove_def)

lemma approveSubscription_adminMove:
  "list_all2 (\<lambda>d d'. sub_id d' = sub_id d \<and> adminMove (status d) (status d'))
     (subscriptions st) (subscriptions (snd (approveSubscription i st)))"
proof (cases "findById (subscriptions st) i")
  case None
  then show ?thesis by (simp add: approveSubscription_def list_all2_refl adminMove_refl)
next
  case (Some sub)
  show ?thesis
  proof (cases "status sub = Pending \<or> status sub = Paid")
    case False
    then show ?thesis
      using Some by (simp add: approveSubscription_refused list_all2_refl adminMove_refl)
  next
    case True
    have "list_all2 (\<lambda>d d'. sub_id d' = sub_id d \<and> adminMove (status d) (status d'))
            (subscriptions st) (saveLoaded (sub\<lparr> status := Success \<rparr>) (subscriptions st))"
      using Some findById_mem [OF Some] True
      by (intro saveLoaded_found_rel [where i = i and sub = sub])
         (auto simp: adminMove_def)
    then show ?thesis by (simp add: approveSubscription_found [OF Some True])
  qed
qed

lemma rejectSubscription_adminMove:
  "list_all2 (\<lambda>d d'. sub_id d' = sub_id d \<and> adminMove (status d) (status d'))
     (subscriptions st) (subscriptions (snd (rejectSubscription i reason st)))"
proof (cases "findById (subscriptions st) i")
  case None
  then show ?thesis by (simp add: rejectSubscription_def list_all2_refl adminMove_refl)
next
  case (Some sub)
  show ?thesis
  proof (cases "status sub = Pending \<or> status sub = Paid")
    case False
    then show ?thesis
      using Some by (simp add: rejectSubscription_def list_all2_refl adminMove_refl)
  next
    case True
    have "list_all2 (\<lambda>d d'. sub_id d' = sub_id d \<and> adminMove (status d) (status d'))
            (subscriptions st)
            (saveLoaded (sub\<lparr> status := Failed,
                                  rejectionReason :=
                                    (case reason of
                                       None \<Rightarrow> rejectionReason sub
                                     | Some r \<Rightarrow> if r = [] then rejectionReason sub else Some r) \<rparr>)
               (subscriptions st))"
      using Some findById_mem [OF Some] True
      by (intro saveLoaded_found_rel [where i = i and sub = sub])
         (auto simp: adminMove_def)
    then show ?thesis by (simp add: rejectSubscription_found [OF Some True])
  qed
qed

lemma admin_run_adminMove:
  "list_all isAdminOp ops \<Longrightarrow>
   list_all2 (\<lambda>d d'. sub_id d' = sub_id d \<and> adminMove (status d) (status d'))
     (subscriptions st) (subscriptions (run H cfg ops st))"
proof (induction ops arbitrary: st)
  case Nil
  then show ?case by (simp add: run_def list_all2_refl adminMove_refl)
next
  case (Cons op ops)
  have step: "list_all2 (\<lambda>d d'. sub_id d' = sub_id d \<and> adminMove (status d) (status d'))
     (subscriptions st) (subscriptions (apply_op H cfg st op))"
    using Cons.prems
    by (cases op)
       (simp_all add: apply_op_def isAdminOp_def approveSubscription_adminMove
          rejectSubscription_adminMove)
  have rest: "list_all2 (\<lambda>d d'. sub_id d' = sub_id d \<and> adminMove (status d) (status d'))
     (subscriptions (apply_op H cfg st op))
     (subscriptions (run H cfg ops (apply_op H cfg st op)))"
    using Cons.prems by (intro Cons.IH) simp
  have "list_all2 (\<lambda>d d'. sub_id d' = sub_id d \<and> adminMove (status d) (status d'))
     (subscriptions st) (subscriptions (run H cfg ops (apply_op H cfg st op)))"
    using step rest
    by (rule list_all2_trans [rotated]) (auto intro: adminMove_trans)
  then show ?case by (simp add: run_def)
qed

lemma sample_notify_paid:
  assumes "findOneByOrderId (subscriptions st) ''MC-1000-42'' = Some sub"
  shows "handlePaymentNotification sampleDigest sampleConfig (sampleNotification ''LKR'' ''2'') st
           = (Sent 200 ''Payment notification received'',
              st\<lparr> subscriptions :=
                    saveLoaded (sub\<lparr> paymentId := Some ''320025'', status := Paid \<rparr>)
                      (subscriptions st) \<rparr>)"
proof -
  have f: "findOneByOrderId (subscriptions st)
             (order_id (sampleNotification ''LKR'' ''2'')) = Some sub"
    using assms by (simp add: sampleNotification_fields)
  have k: "status_code (sampleNotification ''LKR'' ''2'') \<notin> set objectPrototypeKeys"
    by (simp add: sampleNotification_fields objectPrototypeKeys_def)
  have m: "map_of statusMap ''2'' = Some Success"
    by (simp add: statusMap_def)
  show ?thesis
    unfolding handlePaymentNotification_verified [OF sampleNotification_verified f k]
      sampleNotification_fields m
    by simp
qed

lemma replay_step1:
  "run sampleDigest sampleConfig [Notify (sampleNotification ''LKR'' ''2'')] sampleStore
     = sampleStore\<lparr> subscriptions :=
         [sampleSubscription\<lparr> paymentId := Some ''320025'', status := Paid \<rparr>] \<rparr>"
proof -
  have "findOneByOrderId (subscriptions sampleStore) ''MC-1000-42'' = Some sampleSubscription"
    by (simp add: findOneByOrderId_def sampleStore_def sampleSubscription_def)
  from sample_notify_paid [OF this] show ?thesis
    by (simp add: run_def apply_op_def sampleStore_def)
qed

lemma replay_step2:
  "run sampleDigest sampleConfig
     [Notify (sampleNotification ''LKR'' ''2''), Approve 7] sampleStore
     = sampleStore\<lparr> subscriptions :=
         [sampleSubscription\<lparr> paymentId := Some ''320025'', status := Success \<rparr>],
         users := [1 \<mapsto> sampleUser\<lparr> subscriptionLevel := School_Pro \<rparr>] \<rparr>"
proof -
  have "run sampleDigest sampleConfig
     [Notify (sampleNotification ''LKR'' ''2''), Approve 7] sampleStore
     = snd (approveSubscription 7
         (run sampleDigest sampleConfig [Notify (sampleNotification ''LKR'' ''2'')] sampleStore))"
    by (simp add: run_def apply_op_def)
  also have "\<dots> = sampleStore\<lparr> subscriptions :=
         [sampleSubscription\<lparr> paymentId := Some ''320025'', status := Success \<rparr>],
         users := [1 \<mapsto> sampleUser\<lparr> subscriptionLevel := School_Pro \<rparr>] \<rparr>"
    unfolding replay_step1
    by (simp add: approveSubscription_def populated_def findById_def sampleStore_def
        sampleSubscription_def Let_def)
  finally show ?thesis .
qed

lemma replay_step3:
  "run sampleDigest sampleConfig replayedOperations sampleStore
     = sampleStore\<lparr> subscriptions :=
         [sampleSubscription\<lparr> paymentId := Some ''320025'', status := Paid \<rparr>],
         users := [1 \<mapsto> sampleUser\<lparr> subscriptionLevel := School_Pro \<rparr>] \<rparr>"
proof -
  have "run sampleDigest sampleConfig replayedOperations sampleStore
     = snd (handlePaymentNotification sampleDigest sampleConfig (sampleNotification ''LKR'' ''2'')
         (run sampleDigest sampleConfig
            [Notify (sampleNotification ''LKR'' ''2''), Approve 7] sampleStore))"
    by (simp add: run_def apply_op_def replayedOperations_def)
  also have "\<dots> = sampleStore\<lparr> subscriptions :=
         [sampleSubscription\<lparr> paymentId := Some ''320025'', status := Paid \<rparr>],
         users := [1 \<mapsto> sampleUser\<lparr> subscriptionLevel := School_Pro \<rparr>] \<rparr>"
  proof -
    have "findOneByOrderId
            (subscriptions (sampleStore\<lparr> subscriptions :=
               [sampleSubscription\<lparr> paymentId := Some ''320025'', status := Success \<rparr>],
               users := [1 \<mapsto> sampleUser\<lparr> subscriptionLevel := School_Pro \<rparr>] \<rparr>))
            ''MC-1000-42''
          = Some (sampleSubscription\<lparr> paymentId := Some ''320025'', status := Success \<rparr>)"
      by (simp add: findOneByOrderId_def sampleSubscription_def)
    from sample_notify_paid [OF this] show ?thesis
      unfolding replay_step2 by simp
  qed
  finally show ?thesis .
qed

lemma sample_admin_run:
  "run sampleDigest sampleConfig [Approve 7, Reject 7 None] sampleStore
     = sampleStore\<lparr> subscriptions := [sampleSubscription\<lparr> status := Success \<rparr>],
         users := [1 \<mapsto> sampleUser\<lparr> subscriptionLevel := School_Pro \<rparr>] \<rparr>"
  by (simp add: run_def apply_op_def approveSubscription_def rejectSubscription_def
      populated_def findById_def sampleStore_def sampleSubscription_def Let_def)

text \<open>
  C3, as amended. Under every sequence of approvals and rejections, from every store, each
  subscription document stays in place and its status either stays as it is or moves from
  pending or paid to success or failed: it moves forward along the lifecycle, and a status
  of success, failed, canceled or chargedback never changes again.
\<close>

theorem admin_operations_forward:
  assumes "list_all isAdminOp ops"
  shows "list_all2
           (\<lambda>d d'. sub_id d' = sub_id d
                  \<and> adminMove (status d) (status d')
                  \<and> forward (status d) (status d')
                  \<and> (status d \<in> set [Success, Failed, Canceled, Chargedback]
                       \<longrightarrow> status d' = status d))
           (subscriptions st) (subscriptions (run H cfg ops st))"
  using admin_run_adminMove [OF assms, of st H cfg]
  by (rule list_all2_mono) (auto dest: adminMove_forward adminMove_terminal)

theorem admin_operations_forward_witness:
  "list_all isAdminOp [Approve 7, Reject 7 None]
   \<and> map status (subscriptions sampleStore) = [Pending]
   \<and> map status (subscriptions
        (run sampleDigest sampleConfig [Approve 7, Reject 7 None] sampleStore)) = [Success]
   \<and> forward Pending Success"
proof -
  have a: "list_all isAdminOp [Approve 7, Reject 7 None]"
    by (simp add: isAdminOp_def)
  have "forward Pending Success"
    using admin_operations_forward [OF a, of sampleStore sampleDigest sampleConfig]
    unfolding sample_admin_run
    by (simp add: sampleStore_def sampleSubscription_def)
  with a show ?thesis
    by (simp add: sample_admin_run) (simp add: sampleStore_def sampleSubscription_def)
qed

text \<open>
  C3 as stated fails for sequences that contain payment notifications: the handler
  overwrites the status whatever it was. The provider's notification of a successful
  payment marks the sample subscription paid, the administrator approves it (success),
  and the same notification delivered again sets it back to paid.
\<close>

theorem replayed_notification_regresses:
  "map status (subscriptions (run sampleDigest sampleConfig
       [Notify (sampleNotification ''LKR'' ''2''), Approve 7] sampleStore)) = [Success]
   \<and> map status (subscriptions (run sampleDigest sampleConfig replayedOperations sampleStore))
       = [Paid]
   \<and> \<not> forward Success Paid"
  by (simp add: replay_step2 replay_step3 forward_def successors_def)

section \<open>Payment initiation: the hash, and the unknown user\<close>















section \<open>Feedback submission: the fallback path\<close>












section \<open>Feedback listing: pagination\<close>

lemma ceiling_pages:
  fixes t :: nat and L :: int
  assumes "0 < L"
  shows "int t \<le> \<lceil>(of_nat t :: rat) / of_int L\<rceil> * L"
    and "(\<lceil>(of_nat t :: rat) / of_int L\<rceil> - 1) * L < int t"
proof -
  let ?x = "(of_nat t :: rat) / of_int L"
  have L: "(0 :: rat) < of_int L" using assms by simp
  have "?x \<le> of_int \<lceil>?x\<rceil>" by (rule le_of_int_ceiling)
  then have "(of_nat t :: rat) \<le> of_int \<lceil>?x\<rceil> * of_int L"
    by (rule pos_divide_le_eq [OF L, THEN iffD1])
  then have "(of_int (int t) :: rat) \<le> of_int (\<lceil>?x\<rceil> * L)" by simp
  then show "int t \<le> \<lceil>?x\<rceil> * L" by (simp only: of_int_le_iff)
  have "of_int \<lceil>?x\<rceil> - 1 < ?x" by (rule ceiling_correct [THEN conjunct1])
  then have "(of_int \<lceil>?x\<rceil> - 1) * of_int L < (of_nat t :: rat)"
    by (rule pos_less_divide_eq [OF L, THEN iffD1])
  then have "(of_int ((\<lceil>?x\<rceil> - 1) * L) :: rat) < of_int (int t)" by simp
  then show "(\<lceil>?x\<rceil> - 1) * L < int t" by (simp only: of_int_less_iff)
qed

lemma sample_matching:
  "matchesQuery env t ''all'' ''all'' ''all'' (sampleFeedback i s c)"
  by (simp add: matchesQuery_def sampleFeedback_def)

lemma sample_feedbacks:
  "feedbacks feedbackStore =
     [sampleFeedback 1 Positive (9 / 10), sampleFeedback 2 Negative (6 / 10),
      sampleFeedback 3 Positive (7 / 10)]"
  by (simp add: feedbackStore_def)

lemma sample_ceilings: "\<lceil>(3 :: rat) / 2\<rceil> = 2" "\<lceil>- ((3 :: rat) / 2)\<rceil> = - 1"
  by (simp_all add: ceiling_eq_iff)

lemma sample_second_page:
  "getAllFeedback sampleListingEnv sampleAmbient secondPageQuery feedbackStore
     = (ListingJson secondPage, feedbackStore)"
  unfolding getAllFeedback_def Let_def
  by (simp add: secondPageQuery_def intOr_def stringOr_def sample_matching sample_feedbacks
      sampleListingEnv_def creationOrder_def secondPage_def sample_ceilings)

text \<open>
  C8, as amended. When the page and the limit are positive (an absent, unparsable or zero
  parameter counts as page 1 and limit 10), the listing is answered 200 with at most
  limit items; the total is the number of feedback records that match the active filters,
  and the number of pages is \<open>\<lceil>total / limit\<rceil>\<close>, the least number of pages of limit items
  that hold the total.
\<close>

theorem getAllFeedback_page:
  assumes "0 < intOr (q_page q) 1"
    and "0 < intOr (q_limit q) 10"
  shows "\<exists>l. getAllFeedback env a q st = (ListingJson l, st)
           \<and> int (length (l_feedback l)) \<le> intOr (q_limit q) 10
           \<and> itemsPerPage l = intOr (q_limit q) 10
           \<and> currentPage l = intOr (q_page q) 1
           \<and> totalItems l =
               length (filter (matchesQuery env (now a) (stringOr (q_filter q) ''all'')
                                 (stringOr (q_confidence q) ''all'')
                                 (stringOr (q_dateRange q) ''all''))
                         (feedbacks st))
           \<and> totalPages l = \<lceil>(of_nat (totalItems l) :: rat) / of_int (itemsPerPage l)\<rceil>
           \<and> int (totalItems l) \<le> totalPages l * itemsPerPage l
           \<and> (totalPages l - 1) * itemsPerPage l < int (totalItems l)"
proof -
  have skip: "\<not> (intOr (q_page q) 1 - 1) * intOr (q_limit q) 10 < 0"
    using assms by (simp add: not_less)
  show ?thesis
    unfolding getAllFeedback_def Let_def
    using skip assms(2) ceiling_pages [OF assms(2)]
    by (simp del: of_nat_le_iff)
qed

theorem getAllFeedback_page_witness:
  "getAllFeedback sampleListingEnv sampleAmbient secondPageQuery feedbackStore
     = (ListingJson secondPage, feedbackStore)
   \<and> int (length (l_feedback secondPage)) \<le> 2
   \<and> totalPages secondPage = \<lceil>(of_nat (totalItems secondPage) :: rat) / 2\<rceil>"
proof -
  have p: "0 < intOr (q_page secondPageQuery) 1" and l: "0 < intOr (q_limit secondPageQuery) 10"
    by (simp_all add: secondPageQuery_def intOr_def)
  have v: "intOr (q_limit secondPageQuery) 10 = 2"
    by (simp add: secondPageQuery_def intOr_def)
  from getAllFeedback_page [OF p l, of sampleListingEnv sampleAmbient feedbackStore]
  obtain pg where pg: "getAllFeedback sampleListingEnv sampleAmbient secondPageQuery feedbackStore
        = (ListingJson pg, feedbackStore)"
      "int (length (l_feedback pg)) \<le> intOr (q_limit secondPageQuery) 10"
      "itemsPerPage pg = intOr (q_limit secondPageQuery) 10"
      "totalPages pg = \<lceil>(of_nat (totalItems pg) :: rat) / of_int (itemsPerPage pg)\<rceil>"
    by blast
  from pg(1) have "pg = secondPage" by (simp add: sample_second_page)
  with pg show ?thesis by (simp add: v)
qed

text \<open>
  C8 as stated fails for a negative limit: with \<^verbatim>\<open>limit=-2\<close> and three matching records
  the listing holds two items, more than the limit, and reports -1 pages.
\<close>

theorem getAllFeedback_negative_limit:
  "getAllFeedback sampleListingEnv sampleAmbient negativeLimitQuery feedbackStore
     = (ListingJson negativeLimitPage, feedbackStore)
   \<and> itemsPerPage negativeLimitPage = - 2
   \<and> length (l_feedback negativeLimitPage) = 2
   \<and> \<not> int (length (l_feedback negativeLimitPage)) \<le> itemsPerPage negativeLimitPage"
proof -
  have "getAllFeedback sampleListingEnv sampleAmbient negativeLimitQuery feedbackStore
     = (ListingJson negativeLimitPage, feedbackStore)"
    unfolding getAllFeedback_def Let_def
    by (simp add: negativeLimitQuery_def intOr_def stringOr_def sample_matching sample_feedbacks
        sampleListingEnv_def creationOrder_def negativeLimitPage_def sample_ceilings)
  then show ?thesis by (simp add: negativeLimitPage_def)
qed

end
